theory Spec2Isabelle
  imports Main "HOL-Library.AList"
begin

section \<open>The edge-application broker API (pkg/eaa/api_eaa.go)\<close>

text \<open>
  The HTTP handlers of \<^verbatim>\<open>api_eaa.go\<close> are embedded as functions that take the broker
  context, the request and the response writer and return the context and the response
  writer after the call; \<^verbatim>\<open>GetNotifications\<close>, which only opens the WebSocket connection,
  is left out. The helpers the handlers call but that live in other files of the
  package (identity parsing, the subscription index, delivery, the message broker) are
  modelled from the specification; each such definition says so.
\<close>

subsection \<open>Errors and status codes\<close>

datatype error =
    InvalidIdentity
  | NotFound
  | EncodingFailure
  | PublishFailure
  | DeliveryFailure

definition StatusOK :: int where "StatusOK = 200"
definition StatusCreated :: int where "StatusCreated = 201"
definition StatusNoContent :: int where "StatusNoContent = 204"
definition StatusResetContent :: int where "StatusResetContent = 205"
definition StatusNotFound :: int where "StatusNotFound = 404"
definition StatusInternalServerError :: int where "StatusInternalServerError = 500"

subsection \<open>http.ResponseWriter\<close>

text \<open>
  The response writer of \<^verbatim>\<open>net/http\<close>: the first \<^verbatim>\<open>WriteHeader\<close> fixes the status of
  the response, every later call is superfluous and changes nothing; a code outside
  100..999 panics; \<^verbatim>\<open>Write\<close> before any \<^verbatim>\<open>WriteHeader\<close> sends 200 first; a handler that
  returns without writing a header answers 200.
\<close>

record ResponseWriter =
  header :: "(string \<times> string) list"
  wroteHeader :: bool
  status :: int
  superfluous :: "int list"
  body :: "string list"
  panicked :: bool

definition newResponseWriter :: ResponseWriter where
  "newResponseWriter =
     \<lparr>header = [], wroteHeader = False, status = 0, superfluous = [], body = [],
      panicked = False\<rparr>"

definition Header_Set :: "string \<Rightarrow> string \<Rightarrow> ResponseWriter \<Rightarrow> ResponseWriter" where
  "Header_Set k v w = w\<lparr>header := AList.update k v (header w)\<rparr>"

definition WriteHeader :: "int \<Rightarrow> ResponseWriter \<Rightarrow> ResponseWriter" where
  "WriteHeader code w =
     (if panicked w then w
      else if wroteHeader w then w\<lparr>superfluous := superfluous w @ [code]\<rparr>
      else if code < 100 \<or> 999 < code then w\<lparr>panicked := True\<rparr>
      else w\<lparr>wroteHeader := True, status := code\<rparr>)"

definition Write :: "string \<Rightarrow> ResponseWriter \<Rightarrow> ResponseWriter" where
  "Write bs w =
     (if panicked w then w
      else (let w' = (if wroteHeader w then w else WriteHeader StatusOK w)
            in w'\<lparr>body := body w' @ [bs]\<rparr>))"

text \<open>
  What the client sees as the status line once the handler has returned: nothing when the
  handler panicked, the status fixed by the first \<^verbatim>\<open>WriteHeader\<close>, 200 when no header was
  written.
\<close>

definition clientStatus :: "ResponseWriter \<Rightarrow> int option" where
  "clientStatus w =
     (if panicked w then None
      else if wroteHeader w then Some (status w)
      else Some StatusOK)"

subsection \<open>URN\<close>

record URN =
  Namespace :: string
  ID :: string

text \<open>
  Modelled from the spec: \<^verbatim>\<open>URN.String()\<close> is not in \<^verbatim>\<open>api_eaa.go\<close>; the spec gives the
  canonical string form \<^verbatim>\<open><namespace>.<id>\<close>.
\<close>

definition URN_String :: "URN \<Rightarrow> string" where
  "URN_String u = Namespace u @ ''.'' @ ID u"

text \<open>The dot-delimited segments of a string, as \<^verbatim>\<open>strings.Split(s, ".")\<close> gives them.\<close>

fun splitDot :: "string \<Rightarrow> string list" where
  "splitDot [] = [[]]"
| "splitDot (c # cs) =
     (if c = CHR ''.'' then [] # splitDot cs
      else (case splitDot cs of
              [] \<Rightarrow> [[c]]
            | seg # segs \<Rightarrow> (c # seg) # segs))"

text \<open>
  Modelled from the spec: \<^verbatim>\<open>CommonNameStringToURN\<close> (the spec's \<^verbatim>\<open>ParseIdentity\<close>) is
  not in \<^verbatim>\<open>api_eaa.go\<close>. The spec: it splits on the first two dot-delimited segments,
  fails with \<^verbatim>\<open>InvalidIdentity\<close> if fewer than two segments are present, accepts the
  shapes \<^verbatim>\<open><namespace>.<id>\<close> and \<^verbatim>\<open><namespace>.<id>.<suffix>\<close>, and an empty namespace or
  id is malformed.
\<close>

definition CommonNameStringToURN :: "string \<Rightarrow> error + URN" where
  "CommonNameStringToURN commonName =
     (case splitDot commonName of
        ns # ident # rest \<Rightarrow>
          (if ns = [] \<or> ident = [] then Inl InvalidIdentity
           else Inr \<lparr>Namespace = ns, ID = ident\<rparr>)
      | _ \<Rightarrow> Inl InvalidIdentity)"

subsection \<open>Services and registry-change events\<close>

text \<open>
  Modelled from the spec: the declaration of \<^verbatim>\<open>Service\<close> is not in \<^verbatim>\<open>api_eaa.go\<close>; the
  spec gives it a URN, endpoint metadata and descriptive fields. The URN is a pointer in
  the source (\<^verbatim>\<open>serv.URN = &URN\<close>), \<open>None\<close> is the nil pointer.
\<close>

record Service =
  URN :: "URN option"
  EndpointURI :: string
  Description :: string
  Info :: string

text \<open>The zero value of \<^verbatim>\<open>var serv Service\<close>.\<close>

definition zeroService :: Service where
  "zeroService = \<lparr>URN = None, EndpointURI = [], Description = [], Info = []\<rparr>"

datatype ServiceAction = serviceActionRegister | serviceActionDeregister

record ServiceMsg =
  Svc :: Service
  Action :: ServiceAction

record ServiceList =
  Services :: "Service list"

text \<open>A watermill message: \<^verbatim>\<open>message.NewMessage(uuid, payload)\<close>.\<close>

record Message =
  UUID :: string
  Payload :: string

definition NewMessage :: "string \<Rightarrow> string \<Rightarrow> Message" where
  "NewMessage uuid payload = \<lparr>UUID = uuid, Payload = payload\<rparr>"

subsection \<open>The message broker\<close>

text \<open>
  Modelled from the spec: the broker behind \<^verbatim>\<open>eaaCtx.MsgBrokerCtx.publish\<close> is not in
  \<^verbatim>\<open>api_eaa.go\<close>. The spec: \<^verbatim>\<open>Publish(topic, key, payload) -> error\<close> hands the event to
  the message bus. Whether the bus accepts a message is part of the broker's state; every
  call is recorded, and an accepted message is on the bus.
\<close>

record MsgBroker =
  accepting :: bool
  attempts :: "(string \<times> string \<times> Message) list"
  onBus :: "(string \<times> string \<times> Message) list"

definition publish ::
  "MsgBroker \<Rightarrow> string \<Rightarrow> string \<Rightarrow> Message \<Rightarrow> error option \<times> MsgBroker" where
  "publish b publisher topic msg =
     (if accepting b
      then (None, b\<lparr>attempts := attempts b @ [(publisher, topic, msg)],
                    onBus := onBus b @ [(publisher, topic, msg)]\<rparr>)
      else (Some PublishFailure, b\<lparr>attempts := attempts b @ [(publisher, topic, msg)]\<rparr>))"

text \<open>
  Modelled from the spec: the value of the constant \<^verbatim>\<open>servicesTopic\<close> is not in
  \<^verbatim>\<open>api_eaa.go\<close>; the spec calls it a well-known topic.
\<close>

definition servicesTopic :: string where
  "servicesTopic = ''services''"

subsection \<open>The subscription index\<close>

text \<open>
  Modelled from the spec: the subscription index and its operations are not in
  \<^verbatim>\<open>api_eaa.go\<close>. The spec: a descriptor has a name, a version and custom fields; a
  subscription is a descriptor under a scope, a namespace or one service of a namespace;
  descriptor equality is name, version and scope; the index maps a consumer URN to a
  namespace-level set and a service-level set, without duplicates.
\<close>

record NotificationDescriptor =
  Name :: string
  Version :: string
  CustomFields :: "(string \<times> string) list"

datatype Scope = NamespaceScope string | ServiceScope string string

type_synonym Subscription = "Scope \<times> NotificationDescriptor"

type_synonym SubscriptionList = "Subscription list"

record ConsumerSubscription =
  namespaceSubscriptions :: "Subscription list"
  serviceSubscriptions :: "Subscription list"

type_synonym SubscriptionIndex = "(URN \<times> ConsumerSubscription) list"

definition sameSubscription :: "Subscription \<Rightarrow> Subscription \<Rightarrow> bool" where
  "sameSubscription a b =
     (fst a = fst b \<and> Name (snd a) = Name (snd b) \<and> Version (snd a) = Version (snd b))"

definition emptySubscription :: ConsumerSubscription where
  "emptySubscription = \<lparr>namespaceSubscriptions = [], serviceSubscriptions = []\<rparr>"

definition consumerEntry :: "SubscriptionIndex \<Rightarrow> URN \<Rightarrow> ConsumerSubscription" where
  "consumerEntry idx consumer =
     (case map_of idx consumer of None \<Rightarrow> emptySubscription | Some e \<Rightarrow> e)"

text \<open>Adding one subscription to a set: a duplicate is a no-op.\<close>

definition addSubscription :: "Subscription \<Rightarrow> Subscription list \<Rightarrow> Subscription list" where
  "addSubscription s subs = (if list_ex (sameSubscription s) subs then subs else subs @ [s])"

fun addSubscriptions ::
  "Scope \<Rightarrow> NotificationDescriptor list \<Rightarrow> Subscription list \<Rightarrow> Subscription list" where
  "addSubscriptions sc [] subs = subs"
| "addSubscriptions sc (d # ds) subs = addSubscriptions sc ds (addSubscription (sc, d) subs)"

text \<open>Removing the named descriptors: one that is not present is a no-op.\<close>

fun removeSubscriptions ::
  "Scope \<Rightarrow> NotificationDescriptor list \<Rightarrow> Subscription list \<Rightarrow> Subscription list" where
  "removeSubscriptions sc [] subs = subs"
| "removeSubscriptions sc (d # ds) subs =
     removeSubscriptions sc ds (filter (\<lambda>s. \<not> sameSubscription (sc, d) s) subs)"

text \<open>A consumer whose combined subscription set is empty is pruned from the index.\<close>

definition storeEntry ::
  "URN \<Rightarrow> ConsumerSubscription \<Rightarrow> SubscriptionIndex \<Rightarrow> SubscriptionIndex" where
  "storeEntry consumer e idx =
     (if namespaceSubscriptions e = [] \<and> serviceSubscriptions e = []
      then AList.delete consumer idx
      else AList.update consumer e idx)"

definition AddNamespaceSubscription ::
  "SubscriptionIndex \<Rightarrow> URN \<Rightarrow> string \<Rightarrow> NotificationDescriptor list \<Rightarrow> SubscriptionIndex" where
  "AddNamespaceSubscription idx consumer ns ds =
     (let e = consumerEntry idx consumer
      in AList.update consumer
           (e\<lparr>namespaceSubscriptions :=
                addSubscriptions (NamespaceScope ns) ds (namespaceSubscriptions e)\<rparr>) idx)"

definition AddServiceSubscription ::
  "SubscriptionIndex \<Rightarrow> URN \<Rightarrow> string \<Rightarrow> string \<Rightarrow> NotificationDescriptor list
     \<Rightarrow> SubscriptionIndex" where
  "AddServiceSubscription idx consumer ns ident ds =
     (let e = consumerEntry idx consumer
      in AList.update consumer
           (e\<lparr>serviceSubscriptions :=
                addSubscriptions (ServiceScope ns ident) ds (serviceSubscriptions e)\<rparr>) idx)"

definition RemoveNamespaceSubscription ::
  "SubscriptionIndex \<Rightarrow> URN \<Rightarrow> string \<Rightarrow> NotificationDescriptor list \<Rightarrow> SubscriptionIndex" where
  "RemoveNamespaceSubscription idx consumer ns ds =
     (let e = consumerEntry idx consumer
      in storeEntry consumer
           (e\<lparr>namespaceSubscriptions :=
                removeSubscriptions (NamespaceScope ns) ds (namespaceSubscriptions e)\<rparr>) idx)"

definition RemoveServiceSubscription ::
  "SubscriptionIndex \<Rightarrow> URN \<Rightarrow> string \<Rightarrow> string \<Rightarrow> NotificationDescriptor list
     \<Rightarrow> SubscriptionIndex" where
  "RemoveServiceSubscription idx consumer ns ident ds =
     (let e = consumerEntry idx consumer
      in storeEntry consumer
           (e\<lparr>serviceSubscriptions :=
                removeSubscriptions (ServiceScope ns ident) ds (serviceSubscriptions e)\<rparr>) idx)"

definition RemoveAll :: "SubscriptionIndex \<Rightarrow> URN \<Rightarrow> SubscriptionIndex" where
  "RemoveAll idx consumer = AList.delete consumer idx"

text \<open>The union of the consumer's namespace-level and service-level subscriptions.\<close>

definition GetSubscriptionsOf :: "SubscriptionIndex \<Rightarrow> URN \<Rightarrow> SubscriptionList" where
  "GetSubscriptionsOf idx consumer =
     (let e = consumerEntry idx consumer
      in namespaceSubscriptions e @ serviceSubscriptions e)"

text \<open>
  Every consumer whose namespace-level set holds the descriptor for the producer's
  namespace, or whose service-level set holds it for the producer's namespace and id.
\<close>

definition subscribedTo :: "URN \<Rightarrow> NotificationDescriptor \<Rightarrow> ConsumerSubscription \<Rightarrow> bool" where
  "subscribedTo producerURN d e =
     (list_ex (sameSubscription (NamespaceScope (Namespace producerURN), d))
        (namespaceSubscriptions e)
      \<or> list_ex (sameSubscription (ServiceScope (Namespace producerURN) (ID producerURN), d))
          (serviceSubscriptions e))"

definition MatchSubscribers ::
  "SubscriptionIndex \<Rightarrow> URN \<Rightarrow> NotificationDescriptor \<Rightarrow> URN list" where
  "MatchSubscribers idx producerURN d =
     map fst (filter (\<lambda>(consumer, e). subscribedTo producerURN d e) idx)"

subsection \<open>Live channels and delivery\<close>

text \<open>
  Modelled from the spec: the live-channel registry is an external collaborator with
  \<^verbatim>\<open>Get(consumerURN) -> (channel, found)\<close> and \<^verbatim>\<open>Send(channel, payload) -> error\<close>. A
  channel either takes a payload or its send fails; what it took is kept.
\<close>

record Channel =
  writable :: bool
  received :: "string list"

type_synonym ChannelRegistry = "(URN \<times> Channel) list"

definition Send :: "Channel \<Rightarrow> string \<Rightarrow> error option \<times> Channel" where
  "Send ch payload =
     (if writable ch then (None, ch\<lparr>received := received ch @ [payload]\<rparr>)
      else (Some DeliveryFailure, ch))"

record NotificationFromProducer =
  Descriptor :: NotificationDescriptor
  NotifPayload :: string

text \<open>
  One best-effort push to every matched consumer: a missing channel or a failed send is
  recorded in the list of failures and the batch goes on.
\<close>

fun pushToAll ::
  "URN list \<Rightarrow> string \<Rightarrow> ChannelRegistry \<Rightarrow> URN list \<Rightarrow> ChannelRegistry \<times> URN list" where
  "pushToAll [] payload chans failed = (chans, failed)"
| "pushToAll (c # cs) payload chans failed =
     (case map_of chans c of
        None \<Rightarrow> pushToAll cs payload chans (failed @ [c])
      | Some ch \<Rightarrow>
          (case Send ch payload of
             (None, ch') \<Rightarrow> pushToAll cs payload (AList.update c ch' chans) failed
           | (Some err, ch') \<Rightarrow>
               pushToAll cs payload (AList.update c ch' chans) (failed @ [c])))"

subsection \<open>The broker context\<close>

text \<open>
  \<^verbatim>\<open>eaaCtx.serviceInfo\<close> is a Go map that the handlers test against nil and range over:
  \<open>None\<close> is the nil map, the list gives the entries in the order the range visits them.
  The subscription index and the channel registry are the other shared state the absent
  helpers work on.
\<close>

record Context =
  serviceInfo :: "(string \<times> Service) list option"
  subscriptionInfo :: SubscriptionIndex
  consumerConnections :: ChannelRegistry
  MsgBrokerCtx :: MsgBroker

text \<open>
  Modelled from the spec: \<^verbatim>\<open>isServicePresent\<close> is not in \<^verbatim>\<open>api_eaa.go\<close>; the spec's
  \<^verbatim>\<open>Exists\<close> is the optimistic local check that the registry has an entry. A lookup in a
  nil map finds nothing.
\<close>

definition isServicePresent :: "string \<Rightarrow> Context \<Rightarrow> bool" where
  "isServicePresent commonName eaaCtx =
     (case serviceInfo eaaCtx of
        None \<Rightarrow> False
      | Some services \<Rightarrow> map_of services commonName \<noteq> None)"

text \<open>
  Modelled from the spec: the helpers below are not in \<^verbatim>\<open>api_eaa.go\<close>. Each resolves the
  caller's common name to its URN and runs the operation of the spec's subscription index
  or delivery engine; subscribing returns the 201-equivalent status, the other operations
  the 200-equivalent one, zero matched consumers the 205-equivalent one, and a common
  name that does not parse the internal-error status with \<^verbatim>\<open>InvalidIdentity\<close>.
\<close>

definition getConsumerSubscriptions :: "string \<Rightarrow> Context \<Rightarrow> error + SubscriptionList" where
  "getConsumerSubscriptions commonName eaaCtx =
     (case CommonNameStringToURN commonName of
        Inl err \<Rightarrow> Inl err
      | Inr consumer \<Rightarrow> Inr (GetSubscriptionsOf (subscriptionInfo eaaCtx) consumer))"

definition addSubscriptionToNamespace ::
  "string \<Rightarrow> string \<Rightarrow> NotificationDescriptor list \<Rightarrow> Context
     \<Rightarrow> int \<times> error option \<times> Context" where
  "addSubscriptionToNamespace commonName ns ds eaaCtx =
     (case CommonNameStringToURN commonName of
        Inl err \<Rightarrow> (StatusInternalServerError, Some err, eaaCtx)
      | Inr consumer \<Rightarrow>
          (StatusCreated, None,
           eaaCtx\<lparr>subscriptionInfo :=
             AddNamespaceSubscription (subscriptionInfo eaaCtx) consumer ns ds\<rparr>))"

definition addSubscriptionToService ::
  "string \<Rightarrow> string \<Rightarrow> string \<Rightarrow> NotificationDescriptor list \<Rightarrow> Context
     \<Rightarrow> int \<times> error option \<times> Context" where
  "addSubscriptionToService commonName ns ident ds eaaCtx =
     (case CommonNameStringToURN commonName of
        Inl err \<Rightarrow> (StatusInternalServerError, Some err, eaaCtx)
      | Inr consumer \<Rightarrow>
          (StatusCreated, None,
           eaaCtx\<lparr>subscriptionInfo :=
             AddServiceSubscription (subscriptionInfo eaaCtx) consumer ns ident ds\<rparr>))"

definition removeSubscriptionToNamespace ::
  "string \<Rightarrow> string \<Rightarrow> NotificationDescriptor list \<Rightarrow> Context
     \<Rightarrow> int \<times> error option \<times> Context" where
  "removeSubscriptionToNamespace commonName ns ds eaaCtx =
     (case CommonNameStringToURN commonName of
        Inl err \<Rightarrow> (StatusInternalServerError, Some err, eaaCtx)
      | Inr consumer \<Rightarrow>
          (StatusOK, None,
           eaaCtx\<lparr>subscriptionInfo :=
             RemoveNamespaceSubscription (subscriptionInfo eaaCtx) consumer ns ds\<rparr>))"

definition removeSubscriptionToService ::
  "string \<Rightarrow> string \<Rightarrow> string \<Rightarrow> NotificationDescriptor list \<Rightarrow> Context
     \<Rightarrow> int \<times> error option \<times> Context" where
  "removeSubscriptionToService commonName ns ident ds eaaCtx =
     (case CommonNameStringToURN commonName of
        Inl err \<Rightarrow> (StatusInternalServerError, Some err, eaaCtx)
      | Inr consumer \<Rightarrow>
          (StatusOK, None,
           eaaCtx\<lparr>subscriptionInfo :=
             RemoveServiceSubscription (subscriptionInfo eaaCtx) consumer ns ident ds\<rparr>))"

definition removeAllSubscriptions :: "string \<Rightarrow> Context \<Rightarrow> int \<times> error option \<times> Context" where
  "removeAllSubscriptions commonName eaaCtx =
     (case CommonNameStringToURN commonName of
        Inl err \<Rightarrow> (StatusInternalServerError, Some err, eaaCtx)
      | Inr consumer \<Rightarrow>
          (StatusOK, None,
           eaaCtx\<lparr>subscriptionInfo := RemoveAll (subscriptionInfo eaaCtx) consumer\<rparr>))"

definition sendNotificationToAllSubscribers ::
  "string \<Rightarrow> NotificationFromProducer \<Rightarrow> Context \<Rightarrow> int \<times> error option \<times> Context" where
  "sendNotificationToAllSubscribers commonName notif eaaCtx =
     (case CommonNameStringToURN commonName of
        Inl err \<Rightarrow> (StatusInternalServerError, Some err, eaaCtx)
      | Inr producerURN \<Rightarrow>
          (let matched = MatchSubscribers (subscriptionInfo eaaCtx) producerURN (Descriptor notif)
           in if matched = [] then (StatusResetContent, None, eaaCtx)
              else (case pushToAll matched (NotifPayload notif) (consumerConnections eaaCtx) [] of
                      (chans, failed) \<Rightarrow>
                        (StatusOK, None, eaaCtx\<lparr>consumerConnections := chans\<rparr>))))"

subsection \<open>Requests and JSON\<close>

text \<open>
  What a handler reads from \<^verbatim>\<open>*http.Request\<close>: the common name of the client
  certificate (\<^verbatim>\<open>r.TLS.PeerCertificates[0].Subject.CommonName\<close>), the body, and the
  path variables of the router. \<^verbatim>\<open>mux.Vars(r)["k"]\<close> is the empty string for a missing
  key.
\<close>

record Request =
  CommonName :: string
  Body :: string
  Vars :: "(string \<times> string) list"

definition muxVar :: "Request \<Rightarrow> string \<Rightarrow> string" where
  "muxVar r k = (case map_of (Vars r) k of None \<Rightarrow> [] | Some v \<Rightarrow> v)"

text \<open>
  \<^verbatim>\<open>encoding/json\<close> is outside the repository: its decoders and encoders are parameters
  of the handlers, each returning the error or the value.
\<close>

record Json =
  decodeService :: "string \<Rightarrow> error + Service"
  decodeNotification :: "string \<Rightarrow> error + NotificationFromProducer"
  decodeDescriptors :: "string \<Rightarrow> error + NotificationDescriptor list"
  marshalServiceMsg :: "ServiceMsg \<Rightarrow> error + string"
  marshalServiceList :: "ServiceList \<Rightarrow> error + string"
  marshalSubscriptionList :: "SubscriptionList \<Rightarrow> error + string"

text \<open>
  \<^verbatim>\<open>json.NewEncoder(w).Encode(v)\<close>: the value is marshalled and then written to the
  response writer; when marshalling fails nothing is written.
\<close>

definition Encode :: "('a \<Rightarrow> error + string) \<Rightarrow> 'a \<Rightarrow> ResponseWriter \<Rightarrow> error option \<times> ResponseWriter" where
  "Encode marshal v w =
     (case marshal v of
        Inl err \<Rightarrow> (Some err, w)
      | Inr out \<Rightarrow> (None, Write out w))"

definition contentTypeJSON :: "ResponseWriter \<Rightarrow> ResponseWriter" where
  "contentTypeJSON w = Header_Set ''Content-Type'' ''application/json; charset=UTF-8'' w"

subsection \<open>The handlers\<close>

definition DeregisterApplication ::
  "Json \<Rightarrow> Context \<Rightarrow> Request \<Rightarrow> ResponseWriter \<Rightarrow> Context \<times> ResponseWriter" where
  "DeregisterApplication js eaaCtx r w0 =
     (let w = contentTypeJSON w0;
          commonName = CommonName r
      in case CommonNameStringToURN commonName of
           Inl err \<Rightarrow> (eaaCtx, WriteHeader StatusInternalServerError w)
         | Inr urn \<Rightarrow>
             (let statusCode =
                    (if \<not> isServicePresent commonName eaaCtx then StatusNotFound
                     else StatusNoContent);
                  serv = zeroService\<lparr>URN := Some urn\<rparr>;
                  svcMsg = \<lparr>Svc = serv, Action = serviceActionDeregister\<rparr>
              in case marshalServiceMsg js svcMsg of
                   Inl err \<Rightarrow> (eaaCtx, WriteHeader StatusInternalServerError w)
                 | Inr data \<Rightarrow>
                     (let msg = NewMessage (URN_String urn) data
                      in case publish (MsgBrokerCtx eaaCtx) servicesTopic servicesTopic msg of
                           (Some err, broker) \<Rightarrow>
                             (eaaCtx\<lparr>MsgBrokerCtx := broker\<rparr>,
                              WriteHeader StatusInternalServerError w)
                         | (None, broker) \<Rightarrow>
                             (eaaCtx\<lparr>MsgBrokerCtx := broker\<rparr>, WriteHeader statusCode w))))"

definition GetServices ::
  "Json \<Rightarrow> Context \<Rightarrow> Request \<Rightarrow> ResponseWriter \<Rightarrow> Context \<times> ResponseWriter" where
  "GetServices js eaaCtx r w0 =
     (let w = WriteHeader StatusOK (contentTypeJSON w0)
      in case serviceInfo eaaCtx of
           None \<Rightarrow> (eaaCtx, WriteHeader StatusInternalServerError w)
         | Some services \<Rightarrow>
             (let servList = \<lparr>Services = map snd services\<rparr>
              in case Encode (marshalServiceList js) servList w of
                   (Some err, w') \<Rightarrow> (eaaCtx, WriteHeader StatusInternalServerError w')
                 | (None, w') \<Rightarrow> (eaaCtx, w')))"

definition GetSubscriptions ::
  "Json \<Rightarrow> Context \<Rightarrow> Request \<Rightarrow> ResponseWriter \<Rightarrow> Context \<times> ResponseWriter" where
  "GetSubscriptions js eaaCtx r w0 =
     (let w = WriteHeader StatusOK (contentTypeJSON w0);
          commonName = CommonName r
      in case getConsumerSubscriptions commonName eaaCtx of
           Inl err \<Rightarrow> (eaaCtx, WriteHeader StatusInternalServerError w)
         | Inr subs \<Rightarrow>
             (case Encode (marshalSubscriptionList js) subs w of
                (Some err, w') \<Rightarrow> (eaaCtx, WriteHeader StatusInternalServerError w')
              | (None, w') \<Rightarrow> (eaaCtx, w')))"

definition PushNotificationToSubscribers ::
  "Json \<Rightarrow> Context \<Rightarrow> Request \<Rightarrow> ResponseWriter \<Rightarrow> Context \<times> ResponseWriter" where
  "PushNotificationToSubscribers js eaaCtx r w0 =
     (let w = contentTypeJSON w0;
          commonName = CommonName r
      in case decodeNotification js (Body r) of
           Inl err \<Rightarrow> (eaaCtx, WriteHeader StatusInternalServerError w)
         | Inr notif \<Rightarrow>
             (case sendNotificationToAllSubscribers commonName notif eaaCtx of
                (statCode, err, eaaCtx') \<Rightarrow> (eaaCtx', WriteHeader statCode w)))"

definition RegisterApplication ::
  "Json \<Rightarrow> Context \<Rightarrow> Request \<Rightarrow> ResponseWriter \<Rightarrow> Context \<times> ResponseWriter" where
  "RegisterApplication js eaaCtx r w0 =
     (let w = contentTypeJSON w0;
          commonName = CommonName r
      in case decodeService js (Body r) of
           Inl err \<Rightarrow> (eaaCtx, WriteHeader StatusInternalServerError w)
         | Inr decoded \<Rightarrow>
             (case CommonNameStringToURN commonName of
                Inl err \<Rightarrow> (eaaCtx, WriteHeader StatusInternalServerError w)
              | Inr urn \<Rightarrow>
                  (let serv = decoded\<lparr>URN := Some urn\<rparr>;
                       svcMsg = \<lparr>Svc = serv, Action = serviceActionRegister\<rparr>
                   in case marshalServiceMsg js svcMsg of
                        Inl err \<Rightarrow> (eaaCtx, WriteHeader StatusInternalServerError w)
                      | Inr data \<Rightarrow>
                          (let msg = NewMessage commonName data
                           in case publish (MsgBrokerCtx eaaCtx) servicesTopic servicesTopic msg of
                                (Some err, broker) \<Rightarrow>
                                  (eaaCtx\<lparr>MsgBrokerCtx := broker\<rparr>,
                                   WriteHeader StatusInternalServerError w)
                              | (None, broker) \<Rightarrow>
                                  (eaaCtx\<lparr>MsgBrokerCtx := broker\<rparr>,
                                   WriteHeader StatusOK w)))))"

definition SubscribeNamespaceNotifications ::
  "Json \<Rightarrow> Context \<Rightarrow> Request \<Rightarrow> ResponseWriter \<Rightarrow> Context \<times> ResponseWriter" where
  "SubscribeNamespaceNotifications js eaaCtx r w0 =
     (let w = contentTypeJSON w0
      in case decodeDescriptors js (Body r) of
           Inl err \<Rightarrow> (eaaCtx, WriteHeader StatusInternalServerError w)
         | Inr sub \<Rightarrow>
             (let commonName = CommonName r
              in case addSubscriptionToNamespace commonName (muxVar r ''urn.namespace'')
                        sub eaaCtx of
                   (statCode, err, eaaCtx') \<Rightarrow> (eaaCtx', WriteHeader statCode w)))"

definition SubscribeServiceNotifications ::
  "Json \<Rightarrow> Context \<Rightarrow> Request \<Rightarrow> ResponseWriter \<Rightarrow> Context \<times> ResponseWriter" where
  "SubscribeServiceNotifications js eaaCtx r w0 =
     (let w = contentTypeJSON w0
      in case decodeDescriptors js (Body r) of
           Inl err \<Rightarrow> (eaaCtx, WriteHeader StatusInternalServerError w)
         | Inr sub \<Rightarrow>
             (let commonName = CommonName r
              in case addSubscriptionToService commonName (muxVar r ''urn.namespace'')
                        (muxVar r ''urn.id'') sub eaaCtx of
                   (statCode, err, eaaCtx') \<Rightarrow> (eaaCtx', WriteHeader statCode w)))"

definition UnsubscribeAllNotifications ::
  "Json \<Rightarrow> Context \<Rightarrow> Request \<Rightarrow> ResponseWriter \<Rightarrow> Context \<times> ResponseWriter" where
  "UnsubscribeAllNotifications js eaaCtx r w0 =
     (let w = contentTypeJSON w0;
          commonName = CommonName r
      in case removeAllSubscriptions commonName eaaCtx of
           (statCode, err, eaaCtx') \<Rightarrow> (eaaCtx', WriteHeader statCode w))"

definition UnsubscribeNamespaceNotifications ::
  "Json \<Rightarrow> Context \<Rightarrow> Request \<Rightarrow> ResponseWriter \<Rightarrow> Context \<times> ResponseWriter" where
  "UnsubscribeNamespaceNotifications js eaaCtx r w0 =
     (let w = contentTypeJSON w0
      in case decodeDescriptors js (Body r) of
           Inl err \<Rightarrow> (eaaCtx, WriteHeader StatusInternalServerError w)
         | Inr sub \<Rightarrow>
             (let commonName = CommonName r
              in case removeSubscriptionToNamespace commonName (muxVar r ''urn.namespace'')
                        sub eaaCtx of
                   (statCode, err, eaaCtx') \<Rightarrow> (eaaCtx', WriteHeader statCode w)))"

definition UnsubscribeServiceNotifications ::
  "Json \<Rightarrow> Context \<Rightarrow> Request \<Rightarrow> ResponseWriter \<Rightarrow> Context \<times> ResponseWriter" where
  "UnsubscribeServiceNotifications js eaaCtx r w0 =
     (let w = contentTypeJSON w0
      in case decodeDescriptors js (Body r) of
           Inl err \<Rightarrow> (eaaCtx, WriteHeader StatusInternalServerError w)
         | Inr sub \<Rightarrow>
             (let commonName = CommonName r
              in case removeSubscriptionToService commonName (muxVar r ''urn.namespace'')
                        (muxVar r ''urn.id'') sub eaaCtx of
                   (statCode, err, eaaCtx') \<Rightarrow> (eaaCtx', WriteHeader statCode w)))"

subsection \<open>A sample broker for the examples\<close>

text \<open>
  The scenario of the specification: consumer \<^verbatim>\<open>shop.cart\<close> holds a service-level
  subscription to \<^verbatim>\<open>price-update\<close> version 1 of \<^verbatim>\<open>shop.catalog\<close>, its channel does not take
  payloads, and the service \<^verbatim>\<open>shop.catalog\<close> is registered.
\<close>

definition priceUpdate :: NotificationDescriptor where
  "priceUpdate = \<lparr>Name = ''price-update'', Version = ''1'', CustomFields = []\<rparr>"

definition sampleJson :: Json where
  "sampleJson =
     \<lparr>decodeService = (\<lambda>b. if b = ''{}'' then Inr zeroService else Inl EncodingFailure),
      decodeNotification =
        (\<lambda>b. if b = [] then Inl EncodingFailure
              else Inr \<lparr>Descriptor = \<lparr>Name = b, Version = ''1'', CustomFields = []\<rparr>,
                        NotifPayload = ''9.99''\<rparr>),
      decodeDescriptors =
        (\<lambda>b. if b = ''[price-update]'' then Inr [priceUpdate] else Inl EncodingFailure),
      marshalServiceMsg =
        (\<lambda>m. Inr (case Action m of
                     serviceActionRegister \<Rightarrow> ''register''
                   | serviceActionDeregister \<Rightarrow> ''deregister'')),
      marshalServiceList = (\<lambda>l. Inr ''services''),
      marshalSubscriptionList = (\<lambda>l. Inr ''subscriptions'')\<rparr>"

definition shopCart :: URN where
  "shopCart = \<lparr>Namespace = ''shop'', ID = ''cart''\<rparr>"

definition shopCatalog :: URN where
  "shopCatalog = \<lparr>Namespace = ''shop'', ID = ''catalog''\<rparr>"

definition sampleContext :: Context where
  "sampleContext =
     \<lparr>serviceInfo = Some [(''shop.catalog'', zeroService\<lparr>URN := Some shopCatalog\<rparr>)],
      subscriptionInfo =
        [(shopCart,
          \<lparr>namespaceSubscriptions = [],
           serviceSubscriptions = [(ServiceScope ''shop'' ''catalog'', priceUpdate)]\<rparr>)],
      consumerConnections = [(shopCart, \<lparr>writable = False, received = []\<rparr>)],
      MsgBrokerCtx = \<lparr>accepting = True, attempts = [], onBus = []\<rparr>\<rparr>"

definition sampleRequest :: "string \<Rightarrow> string \<Rightarrow> Request" where
  "sampleRequest cn b =
     \<lparr>CommonName = cn, Body = b,
      Vars = [(''urn.namespace'', ''shop''), (''urn.id'', ''catalog'')]\<rparr>"

section \<open>Properties\<close>

lemmas status_defs =
  StatusOK_def StatusCreated_def StatusNoContent_def StatusResetContent_def
  StatusNotFound_def StatusInternalServerError_def

lemmas writer_defs =
  newResponseWriter_def Header_Set_def WriteHeader_def Write_def clientStatus_def
  contentTypeJSON_def Encode_def

lemmas sample_defs =
  priceUpdate_def sampleJson_def shopCart_def shopCatalog_def sampleContext_def
  sampleRequest_def

lemmas handler_simps = writer_defs status_defs Let_def

subsection \<open>Identity parsing\<close>

lemma splitDot_nonempty: "splitDot s \<noteq> []"
  by (induction s) (auto split: list.splits)

lemma splitDot_no_dot: "CHR ''.'' \<notin> set s \<Longrightarrow> splitDot s = [s]"
  by (induction s) auto

lemma splitDot_append_dot:
  "CHR ''.'' \<notin> set a \<Longrightarrow> splitDot (a @ CHR ''.'' # b) = a # splitDot b"
  by (induction a) (auto simp: splitDot_nonempty split: list.splits)

lemma parse_valid:
  "ns \<noteq> [] \<Longrightarrow> ident \<noteq> [] \<Longrightarrow> CHR ''.'' \<notin> set ns \<Longrightarrow> CHR ''.'' \<notin> set ident \<Longrightarrow>
   CommonNameStringToURN (ns @ ''.'' @ ident) = Inr \<lparr>Namespace = ns, ID = ident\<rparr>"
  by (simp add: CommonNameStringToURN_def splitDot_append_dot splitDot_no_dot)

lemma parse_no_dot:
  "CHR ''.'' \<notin> set cn \<Longrightarrow> CommonNameStringToURN cn = Inl InvalidIdentity"
  by (simp add: CommonNameStringToURN_def splitDot_no_dot)

lemma parse_empty_namespace:
  "CommonNameStringToURN (''.'' @ rest) = Inl InvalidIdentity"
  by (cases "splitDot rest") (simp_all add: CommonNameStringToURN_def)

lemma parse_empty_id_end:
  "CHR ''.'' \<notin> set ns \<Longrightarrow> CommonNameStringToURN (ns @ ''.'') = Inl InvalidIdentity"
  by (simp add: CommonNameStringToURN_def splitDot_append_dot)

lemma parse_empty_id_middle:
  "CHR ''.'' \<notin> set ns \<Longrightarrow> CommonNameStringToURN (ns @ ''..'' @ rest) = Inl InvalidIdentity"
  by (simp add: CommonNameStringToURN_def splitDot_append_dot)

text \<open>
  C4. A common name of the shape \<^verbatim>\<open><namespace>.<id>\<close>, both parts non-empty and free of
  dots, always parses, to the URN of these two parts; on such names parsing is injective;
  a name without a dot, with an empty namespace or with an empty id fails with
  \<^verbatim>\<open>InvalidIdentity\<close>. (Parsing is a function, hence deterministic.)
\<close>

theorem CommonNameStringToURN_valid_and_malformed:
  "(ns \<noteq> [] \<and> ident \<noteq> [] \<and> CHR ''.'' \<notin> set ns \<and> CHR ''.'' \<notin> set ident \<longrightarrow>
      CommonNameStringToURN (ns @ ''.'' @ ident) = Inr \<lparr>Namespace = ns, ID = ident\<rparr>)
   \<and> inj_on CommonNameStringToURN
        {cn. \<exists>n i. cn = n @ ''.'' @ i \<and> n \<noteq> [] \<and> i \<noteq> []
                    \<and> CHR ''.'' \<notin> set n \<and> CHR ''.'' \<notin> set i}
   \<and> (CHR ''.'' \<notin> set cn \<longrightarrow> CommonNameStringToURN cn = Inl InvalidIdentity)
   \<and> CommonNameStringToURN (''.'' @ rest) = Inl InvalidIdentity
   \<and> (CHR ''.'' \<notin> set ns \<longrightarrow>
        CommonNameStringToURN (ns @ ''.'') = Inl InvalidIdentity
        \<and> CommonNameStringToURN (ns @ ''..'' @ rest) = Inl InvalidIdentity)"
proof -
  have inj: "inj_on CommonNameStringToURN
        {cn. \<exists>n i. cn = n @ ''.'' @ i \<and> n \<noteq> [] \<and> i \<noteq> []
                    \<and> CHR ''.'' \<notin> set n \<and> CHR ''.'' \<notin> set i}"
  proof (rule inj_onI)
    fix x y
    assume x: "x \<in> {cn. \<exists>n i. cn = n @ ''.'' @ i \<and> n \<noteq> [] \<and> i \<noteq> []
                    \<and> CHR ''.'' \<notin> set n \<and> CHR ''.'' \<notin> set i}"
      and y: "y \<in> {cn. \<exists>n i. cn = n @ ''.'' @ i \<and> n \<noteq> [] \<and> i \<noteq> []
                    \<and> CHR ''.'' \<notin> set n \<and> CHR ''.'' \<notin> set i}"
      and eq: "CommonNameStringToURN x = CommonNameStringToURN y"
    from x obtain n i where xs: "x = n @ ''.'' @ i" "n \<noteq> []" "i \<noteq> []"
      "CHR ''.'' \<notin> set n" "CHR ''.'' \<notin> set i" by blast
    from y obtain m j where ys: "y = m @ ''.'' @ j" "m \<noteq> []" "j \<noteq> []"
      "CHR ''.'' \<notin> set m" "CHR ''.'' \<notin> set j" by blast
    have "CommonNameStringToURN x = Inr \<lparr>Namespace = n, ID = i\<rparr>"
      unfolding xs(1) using xs(2-5) by (rule parse_valid)
    moreover have "CommonNameStringToURN y = Inr \<lparr>Namespace = m, ID = j\<rparr>"
      unfolding ys(1) using ys(2-5) by (rule parse_valid)
    ultimately have "n = m \<and> i = j" using eq by simp
    then show "x = y" by (simp add: xs(1) ys(1))
  qed
  show ?thesis
    using inj parse_valid [of ns ident] parse_no_dot [of cn] parse_empty_namespace [of rest]
      parse_empty_id_end [of ns] parse_empty_id_middle [of ns rest]
    by blast
qed

theorem CommonNameStringToURN_valid_and_malformed_witness:
  "CommonNameStringToURN ''shop.cart'' = Inr \<lparr>Namespace = ''shop'', ID = ''cart''\<rparr>
   \<and> CommonNameStringToURN ''shopcart'' = Inl InvalidIdentity
   \<and> CommonNameStringToURN ''.cart'' = Inl InvalidIdentity
   \<and> CommonNameStringToURN ''shop.'' = Inl InvalidIdentity
   \<and> CommonNameStringToURN ''shop..cart'' = Inl InvalidIdentity"
  using CommonNameStringToURN_valid_and_malformed
    [where ns = "''shop''" and ident = "''cart''" and cn = "''shopcart''" and rest = "''cart''"]
  by simp

subsection \<open>Status of the list handlers\<close>

text \<open>
  C8. \<^verbatim>\<open>GetServices\<close> writes the 200 header first, so the client sees 200 for every
  request, also when the registry is nil or when encoding fails: the later write of the
  internal-error status is superfluous.
\<close>

theorem GetServices_status_always_200:
  "clientStatus (snd (GetServices js eaaCtx r newResponseWriter)) = Some StatusOK
   \<and> clientStatus (snd (GetServices js (eaaCtx\<lparr>serviceInfo := None\<rparr>) r newResponseWriter))
       = Some StatusOK
   \<and> superfluous (snd (GetServices js (eaaCtx\<lparr>serviceInfo := None\<rparr>) r newResponseWriter))
       = [StatusInternalServerError]
   \<and> clientStatus
        (snd (GetServices (js\<lparr>marshalServiceList := \<lambda>l. Inl err\<rparr>)
                (eaaCtx\<lparr>serviceInfo := Some services\<rparr>) r newResponseWriter))
       = Some StatusOK
   \<and> superfluous
        (snd (GetServices (js\<lparr>marshalServiceList := \<lambda>l. Inl err\<rparr>)
                (eaaCtx\<lparr>serviceInfo := Some services\<rparr>) r newResponseWriter))
       = [StatusInternalServerError]"
  by (simp add: GetServices_def handler_simps split: option.splits sum.splits prod.splits)

text \<open>
  C7. When encoding the service list or the subscription list fails, the handler calls
  \<^verbatim>\<open>WriteHeader\<close> with the internal-error status, but the status of the response is
  already 200: the caller does not receive the internal-error status.
\<close>

theorem encoding_failure_answers_200:
  "clientStatus
     (snd (GetServices (sampleJson\<lparr>marshalServiceList := \<lambda>l. Inl EncodingFailure\<rparr>)
             sampleContext (sampleRequest ''shop.cart'' []) newResponseWriter))
     = Some StatusOK
   \<and> clientStatus
       (snd (GetSubscriptions (sampleJson\<lparr>marshalSubscriptionList := \<lambda>l. Inl EncodingFailure\<rparr>)
               sampleContext (sampleRequest ''shop.cart'' []) newResponseWriter))
     = Some StatusOK
   \<and> Some StatusOK \<noteq> Some StatusInternalServerError"
  by (simp add: GetServices_def GetSubscriptions_def getConsumerSubscriptions_def
        handler_simps sample_defs split: option.splits sum.splits prod.splits)

subsection \<open>Requests whose body does not decode\<close>

text \<open>
  C9. A subscribe or unsubscribe request, namespace- or service-scoped, whose body fails
  to decode answers the internal-error status and returns the context it was given: the
  subscription index is neither read nor changed.
\<close>

theorem decode_failure_leaves_index:
  assumes "decodeDescriptors js (Body r) = Inl err"
  shows "SubscribeNamespaceNotifications js eaaCtx r newResponseWriter
           = (eaaCtx, WriteHeader StatusInternalServerError (contentTypeJSON newResponseWriter))
       \<and> SubscribeServiceNotifications js eaaCtx r newResponseWriter
           = (eaaCtx, WriteHeader StatusInternalServerError (contentTypeJSON newResponseWriter))
       \<and> UnsubscribeNamespaceNotifications js eaaCtx r newResponseWriter
           = (eaaCtx, WriteHeader StatusInternalServerError (contentTypeJSON newResponseWriter))
       \<and> UnsubscribeServiceNotifications js eaaCtx r newResponseWriter
           = (eaaCtx, WriteHeader StatusInternalServerError (contentTypeJSON newResponseWriter))
       \<and> clientStatus (WriteHeader StatusInternalServerError (contentTypeJSON newResponseWriter))
           = Some StatusInternalServerError"
  using assms
  by (simp add: SubscribeNamespaceNotifications_def SubscribeServiceNotifications_def
        UnsubscribeNamespaceNotifications_def UnsubscribeServiceNotifications_def
        handler_simps)

theorem decode_failure_leaves_index_witness:
  "decodeDescriptors sampleJson (Body (sampleRequest ''shop.cart'' ''{'')) = Inl EncodingFailure
   \<and> fst (SubscribeNamespaceNotifications sampleJson sampleContext
            (sampleRequest ''shop.cart'' ''{'') newResponseWriter) = sampleContext
   \<and> fst (SubscribeServiceNotifications sampleJson sampleContext
            (sampleRequest ''shop.cart'' ''{'') newResponseWriter) = sampleContext
   \<and> fst (UnsubscribeNamespaceNotifications sampleJson sampleContext
            (sampleRequest ''shop.cart'' ''{'') newResponseWriter) = sampleContext
   \<and> fst (UnsubscribeServiceNotifications sampleJson sampleContext
            (sampleRequest ''shop.cart'' ''{'') newResponseWriter) = sampleContext
   \<and> clientStatus (snd (UnsubscribeServiceNotifications sampleJson sampleContext
            (sampleRequest ''shop.cart'' ''{'') newResponseWriter))
       = Some StatusInternalServerError"
proof -
  have h: "decodeDescriptors sampleJson (Body (sampleRequest ''shop.cart'' ''{''))
             = Inl EncodingFailure"
    by (simp add: sampleJson_def sampleRequest_def)
  show ?thesis
    using h decode_failure_leaves_index [OF h, of sampleContext] by simp
qed


subsection \<open>Register and deregister\<close>

text \<open>
  C1. A deregister request whose common name parses to a URN, and whose event marshals,
  hands the deregister event to the broker whether or not the service is in the local
  registry: what the broker is given is the same for every content of the registry. When
  the broker accepts it the event is on the bus and the status is 204 if the service was
  locally present and 404 if it was absent.
\<close>

theorem Deregister_publishes_regardless:
  assumes urn: "CommonNameStringToURN (CommonName r) = Inr urn"
    and data: "marshalServiceMsg js
                 \<lparr>Svc = zeroService\<lparr>URN := Some urn\<rparr>, Action = serviceActionDeregister\<rparr>
               = Inr data"
  shows "attempts (MsgBrokerCtx (fst (DeregisterApplication js eaaCtx r newResponseWriter)))
           = attempts (MsgBrokerCtx eaaCtx)
             @ [(servicesTopic, servicesTopic, NewMessage (URN_String urn) data)]
       \<and> (accepting (MsgBrokerCtx eaaCtx) \<longrightarrow>
            onBus (MsgBrokerCtx (fst (DeregisterApplication js eaaCtx r newResponseWriter)))
              = onBus (MsgBrokerCtx eaaCtx)
                @ [(servicesTopic, servicesTopic, NewMessage (URN_String urn) data)]
            \<and> clientStatus (snd (DeregisterApplication js eaaCtx r newResponseWriter))
              = Some (if isServicePresent (CommonName r) eaaCtx then StatusNoContent
                      else StatusNotFound))
       \<and> MsgBrokerCtx (fst (DeregisterApplication js (eaaCtx\<lparr>serviceInfo := registry\<rparr>) r
            newResponseWriter))
           = MsgBrokerCtx (fst (DeregisterApplication js eaaCtx r newResponseWriter))"
  using assms
  by (simp add: DeregisterApplication_def publish_def handler_simps)

theorem Deregister_publishes_regardless_witness:
  "CommonNameStringToURN (CommonName (sampleRequest ''shop.catalog'' [])) = Inr shopCatalog
   \<and> CommonNameStringToURN (CommonName (sampleRequest ''shop.cart'' [])) = Inr shopCart
   \<and> isServicePresent ''shop.catalog'' sampleContext
   \<and> \<not> isServicePresent ''shop.cart'' sampleContext
   \<and> onBus (MsgBrokerCtx (fst (DeregisterApplication sampleJson sampleContext
              (sampleRequest ''shop.catalog'' []) newResponseWriter)))
       = [(servicesTopic, servicesTopic, NewMessage ''shop.catalog'' ''deregister'')]
   \<and> clientStatus (snd (DeregisterApplication sampleJson sampleContext
              (sampleRequest ''shop.catalog'' []) newResponseWriter)) = Some StatusNoContent
   \<and> onBus (MsgBrokerCtx (fst (DeregisterApplication sampleJson sampleContext
              (sampleRequest ''shop.cart'' []) newResponseWriter)))
       = [(servicesTopic, servicesTopic, NewMessage ''shop.cart'' ''deregister'')]
   \<and> clientStatus (snd (DeregisterApplication sampleJson sampleContext
              (sampleRequest ''shop.cart'' []) newResponseWriter)) = Some StatusNotFound"
proof -
  have u1: "CommonNameStringToURN (CommonName (sampleRequest ''shop.catalog'' [])) = Inr shopCatalog"
    by (simp add: CommonNameStringToURN_def sample_defs)
  have u2: "CommonNameStringToURN (CommonName (sampleRequest ''shop.cart'' [])) = Inr shopCart"
    by (simp add: CommonNameStringToURN_def sample_defs)
  have d1: "marshalServiceMsg sampleJson
              \<lparr>Svc = zeroService\<lparr>URN := Some shopCatalog\<rparr>, Action = serviceActionDeregister\<rparr>
            = Inr ''deregister''"
    by (simp add: sampleJson_def)
  have d2: "marshalServiceMsg sampleJson
              \<lparr>Svc = zeroService\<lparr>URN := Some shopCart\<rparr>, Action = serviceActionDeregister\<rparr>
            = Inr ''deregister''"
    by (simp add: sampleJson_def)
  have p1: "isServicePresent ''shop.catalog'' sampleContext"
    by (simp add: isServicePresent_def sampleContext_def)
  have p2: "\<not> isServicePresent ''shop.cart'' sampleContext"
    by (simp add: isServicePresent_def sampleContext_def)
  have acc: "accepting (MsgBrokerCtx sampleContext)" "onBus (MsgBrokerCtx sampleContext) = []"
    by (simp_all add: sampleContext_def)
  have cn: "CommonName (sampleRequest ''shop.catalog'' []) = ''shop.catalog''"
    "CommonName (sampleRequest ''shop.cart'' []) = ''shop.cart''"
    by (simp_all add: sampleRequest_def)
  have s1: "URN_String shopCatalog = ''shop.catalog''" "URN_String shopCart = ''shop.cart''"
    by (simp_all add: URN_String_def shopCatalog_def shopCart_def)
  show ?thesis
    using u1 u2 p1 p2 acc cn s1
      Deregister_publishes_regardless [OF u1 d1, of sampleContext]
      Deregister_publishes_regardless [OF u2 d2, of sampleContext]
    by simp
qed

text \<open>The outcomes of the two handlers with respect to the broker, one handler at a time.\<close>

lemma Register_publish_outcome:
  "(\<not> accepting (MsgBrokerCtx eaaCtx) \<longrightarrow>
      clientStatus (snd (RegisterApplication js eaaCtx r newResponseWriter))
        = Some StatusInternalServerError)
   \<and> serviceInfo (fst (RegisterApplication js eaaCtx r newResponseWriter)) = serviceInfo eaaCtx
   \<and> (clientStatus (snd (RegisterApplication js eaaCtx r newResponseWriter))
         \<noteq> Some StatusInternalServerError \<longrightarrow>
       accepting (MsgBrokerCtx eaaCtx)
       \<and> length (onBus (MsgBrokerCtx (fst (RegisterApplication js eaaCtx r newResponseWriter))))
           = Suc (length (onBus (MsgBrokerCtx eaaCtx))))"
proof (cases "decodeService js (Body r)")
  case (Inl e)
  then show ?thesis by (simp add: RegisterApplication_def handler_simps)
next
  case dec: (Inr decoded)
  show ?thesis
  proof (cases "CommonNameStringToURN (CommonName r)")
    case (Inl e)
    with dec show ?thesis by (simp add: RegisterApplication_def handler_simps)
  next
    case urn: (Inr urn)
    show ?thesis
    proof (cases "marshalServiceMsg js
                    \<lparr>Svc = decoded\<lparr>URN := Some urn\<rparr>, Action = serviceActionRegister\<rparr>")
      case (Inl e)
      with dec urn show ?thesis by (simp add: RegisterApplication_def handler_simps)
    next
      case (Inr data)
      with dec urn show ?thesis
        by (simp add: RegisterApplication_def publish_def handler_simps)
    qed
  qed
qed

lemma Deregister_publish_outcome:
  "(\<not> accepting (MsgBrokerCtx eaaCtx) \<longrightarrow>
      clientStatus (snd (DeregisterApplication js eaaCtx r newResponseWriter))
        = Some StatusInternalServerError)
   \<and> serviceInfo (fst (DeregisterApplication js eaaCtx r newResponseWriter)) = serviceInfo eaaCtx
   \<and> (clientStatus (snd (DeregisterApplication js eaaCtx r newResponseWriter))
         \<noteq> Some StatusInternalServerError \<longrightarrow>
       accepting (MsgBrokerCtx eaaCtx)
       \<and> length (onBus (MsgBrokerCtx (fst (DeregisterApplication js eaaCtx r newResponseWriter))))
           = Suc (length (onBus (MsgBrokerCtx eaaCtx))))"
proof (cases "CommonNameStringToURN (CommonName r)")
  case (Inl e)
  then show ?thesis by (simp add: DeregisterApplication_def handler_simps)
next
  case urn: (Inr urn)
  show ?thesis
  proof (cases "marshalServiceMsg js
                  \<lparr>Svc = zeroService\<lparr>URN := Some urn\<rparr>, Action = serviceActionDeregister\<rparr>")
    case (Inl e)
    with urn show ?thesis by (simp add: DeregisterApplication_def handler_simps)
  next
    case (Inr data)
    with urn show ?thesis
      by (simp add: DeregisterApplication_def publish_def handler_simps)
  qed
qed

text \<open>
  C2. When the publish fails, register and deregister answer the internal-error status;
  neither handler changes the local service registry on any path; and a status other than
  the internal error is answered only when the broker accepted the message, which is then
  on the bus.
\<close>

theorem publish_failure_is_internal_error:
  "(\<not> accepting (MsgBrokerCtx eaaCtx) \<longrightarrow>
      clientStatus (snd (RegisterApplication js eaaCtx r newResponseWriter))
        = Some StatusInternalServerError
      \<and> clientStatus (snd (DeregisterApplication js eaaCtx r newResponseWriter))
        = Some StatusInternalServerError)
   \<and> serviceInfo (fst (RegisterApplication js eaaCtx r newResponseWriter)) = serviceInfo eaaCtx
   \<and> serviceInfo (fst (DeregisterApplication js eaaCtx r newResponseWriter)) = serviceInfo eaaCtx
   \<and> (clientStatus (snd (RegisterApplication js eaaCtx r newResponseWriter))
         \<noteq> Some StatusInternalServerError \<longrightarrow>
       accepting (MsgBrokerCtx eaaCtx)
       \<and> length (onBus (MsgBrokerCtx (fst (RegisterApplication js eaaCtx r newResponseWriter))))
           = Suc (length (onBus (MsgBrokerCtx eaaCtx))))
   \<and> (clientStatus (snd (DeregisterApplication js eaaCtx r newResponseWriter))
         \<noteq> Some StatusInternalServerError \<longrightarrow>
       accepting (MsgBrokerCtx eaaCtx)
       \<and> length (onBus (MsgBrokerCtx (fst (DeregisterApplication js eaaCtx r newResponseWriter))))
           = Suc (length (onBus (MsgBrokerCtx eaaCtx))))"
  using Register_publish_outcome [of eaaCtx js r] Deregister_publish_outcome [of eaaCtx js r]
  by blast

lemma parse_shop_catalog: "CommonNameStringToURN ''shop.catalog'' = Inr shopCatalog"
  by (simp add: CommonNameStringToURN_def shopCatalog_def)

lemma parse_shop_cart: "CommonNameStringToURN ''shop.cart'' = Inr shopCart"
  by (simp add: CommonNameStringToURN_def shopCart_def)

theorem publish_failure_is_internal_error_witness:
  "\<not> accepting (MsgBrokerCtx (sampleContext\<lparr>MsgBrokerCtx :=
        \<lparr>accepting = False, attempts = [], onBus = []\<rparr>\<rparr>))
   \<and> clientStatus (snd (RegisterApplication sampleJson
        (sampleContext\<lparr>MsgBrokerCtx := \<lparr>accepting = False, attempts = [], onBus = []\<rparr>\<rparr>)
        (sampleRequest ''shop.catalog'' ''{}'') newResponseWriter))
       = Some StatusInternalServerError
   \<and> clientStatus (snd (DeregisterApplication sampleJson
        (sampleContext\<lparr>MsgBrokerCtx := \<lparr>accepting = False, attempts = [], onBus = []\<rparr>\<rparr>)
        (sampleRequest ''shop.catalog'' ''{}'') newResponseWriter))
       = Some StatusInternalServerError
   \<and> clientStatus (snd (RegisterApplication sampleJson sampleContext
        (sampleRequest ''shop.catalog'' ''{}'') newResponseWriter)) = Some StatusOK
   \<and> length (onBus (MsgBrokerCtx (fst (RegisterApplication sampleJson sampleContext
        (sampleRequest ''shop.catalog'' ''{}'') newResponseWriter)))) = 1
   \<and> clientStatus (snd (DeregisterApplication sampleJson sampleContext
        (sampleRequest ''shop.catalog'' ''{}'') newResponseWriter)) = Some StatusNoContent
   \<and> length (onBus (MsgBrokerCtx (fst (DeregisterApplication sampleJson sampleContext
        (sampleRequest ''shop.catalog'' ''{}'') newResponseWriter)))) = 1"
proof -
  have down: "\<not> accepting (MsgBrokerCtx (sampleContext\<lparr>MsgBrokerCtx :=
        \<lparr>accepting = False, attempts = [], onBus = []\<rparr>\<rparr>))"
    by simp
  have reg: "clientStatus (snd (RegisterApplication sampleJson sampleContext
        (sampleRequest ''shop.catalog'' ''{}'') newResponseWriter)) = Some StatusOK"
    by (simp add: RegisterApplication_def publish_def parse_shop_catalog sampleJson_def
          sampleRequest_def sampleContext_def handler_simps)
  have dereg: "clientStatus (snd (DeregisterApplication sampleJson sampleContext
        (sampleRequest ''shop.catalog'' ''{}'') newResponseWriter)) = Some StatusNoContent"
    by (simp add: DeregisterApplication_def publish_def parse_shop_catalog sampleJson_def
          sampleRequest_def sampleContext_def isServicePresent_def handler_simps)
  have empty: "onBus (MsgBrokerCtx sampleContext) = []"
    by (simp add: sampleContext_def)
  have ne: "Some StatusOK \<noteq> Some StatusInternalServerError"
    "Some StatusNoContent \<noteq> Some StatusInternalServerError"
    by (simp_all add: status_defs)
  show ?thesis
    using down reg dereg empty ne
      publish_failure_is_internal_error
        [of "sampleContext\<lparr>MsgBrokerCtx := \<lparr>accepting = False, attempts = [], onBus = []\<rparr>\<rparr>"
            sampleJson "sampleRequest ''shop.catalog'' ''{}''"]
      publish_failure_is_internal_error
        [of sampleContext sampleJson "sampleRequest ''shop.catalog'' ''{}''"]
    by simp
qed

text \<open>
  C10. The deregister event carries a service whose only populated field is the URN of the
  caller's common name, and the key of its message is the canonical string of that URN;
  the key of the register message is the common name as it came.
\<close>

theorem event_keys:
  assumes urn: "CommonNameStringToURN (CommonName r) = Inr urn"
  shows "(marshalServiceMsg js
            \<lparr>Svc = \<lparr>URN = Some urn, EndpointURI = [], Description = [], Info = []\<rparr>,
             Action = serviceActionDeregister\<rparr> = Inr data \<longrightarrow>
          attempts (MsgBrokerCtx (fst (DeregisterApplication js eaaCtx r newResponseWriter)))
            = attempts (MsgBrokerCtx eaaCtx)
              @ [(servicesTopic, servicesTopic,
                  \<lparr>UUID = Namespace urn @ ''.'' @ ID urn, Payload = data\<rparr>)])
       \<and> (decodeService js (Body r) = Inr decoded
          \<and> marshalServiceMsg js
              \<lparr>Svc = decoded\<lparr>URN := Some urn\<rparr>, Action = serviceActionRegister\<rparr> = Inr data'
          \<longrightarrow>
          attempts (MsgBrokerCtx (fst (RegisterApplication js eaaCtx r newResponseWriter)))
            = attempts (MsgBrokerCtx eaaCtx)
              @ [(servicesTopic, servicesTopic,
                  \<lparr>UUID = CommonName r, Payload = data'\<rparr>)])"
  using urn
  by (simp add: DeregisterApplication_def RegisterApplication_def publish_def zeroService_def
        NewMessage_def URN_String_def handler_simps)

lemma parse_shop_catalog_edge: "CommonNameStringToURN ''shop.catalog.edge'' = Inr shopCatalog"
  by (simp add: CommonNameStringToURN_def shopCatalog_def)

theorem event_keys_witness:
  "CommonNameStringToURN (CommonName (sampleRequest ''shop.catalog.edge'' ''{}''))
     = Inr shopCatalog
   \<and> attempts (MsgBrokerCtx (fst (DeregisterApplication sampleJson sampleContext
        (sampleRequest ''shop.catalog.edge'' ''{}'') newResponseWriter)))
       = [(servicesTopic, servicesTopic, \<lparr>UUID = ''shop.catalog'', Payload = ''deregister''\<rparr>)]
   \<and> attempts (MsgBrokerCtx (fst (RegisterApplication sampleJson sampleContext
        (sampleRequest ''shop.catalog.edge'' ''{}'') newResponseWriter)))
       = [(servicesTopic, servicesTopic,
           \<lparr>UUID = ''shop.catalog.edge'', Payload = ''register''\<rparr>)]"
proof -
  have u: "CommonNameStringToURN (CommonName (sampleRequest ''shop.catalog.edge'' ''{}''))
             = Inr shopCatalog"
    by (simp add: sampleRequest_def parse_shop_catalog_edge)
  have d: "marshalServiceMsg sampleJson
             \<lparr>Svc = \<lparr>URN = Some shopCatalog, EndpointURI = [], Description = [], Info = []\<rparr>,
              Action = serviceActionDeregister\<rparr> = Inr ''deregister''"
    by (simp add: sampleJson_def)
  have r: "decodeService sampleJson (Body (sampleRequest ''shop.catalog.edge'' ''{}''))
             = Inr zeroService
           \<and> marshalServiceMsg sampleJson
               \<lparr>Svc = zeroService\<lparr>URN := Some shopCatalog\<rparr>, Action = serviceActionRegister\<rparr>
             = Inr ''register''"
    by (simp add: sampleJson_def sampleRequest_def)
  have a: "attempts (MsgBrokerCtx sampleContext) = []"
    by (simp add: sampleContext_def)
  have n: "Namespace shopCatalog @ ''.'' @ ID shopCatalog = ''shop.catalog''"
    "CommonName (sampleRequest ''shop.catalog.edge'' ''{}'') = ''shop.catalog.edge''"
    by (simp_all add: shopCatalog_def sampleRequest_def)
  show ?thesis
    using u d r a n
      event_keys [OF u, of sampleJson "''deregister''" sampleContext zeroService "''register''"]
    by simp
qed

subsection \<open>Pushing a notification\<close>

lemma send_status:
  "CommonNameStringToURN cn = Inr producerURN \<Longrightarrow>
   fst (sendNotificationToAllSubscribers cn notif eaaCtx)
     = (if MatchSubscribers (subscriptionInfo eaaCtx) producerURN (Descriptor notif) = []
        then StatusResetContent else StatusOK)"
  by (simp add: sendNotificationToAllSubscribers_def Let_def split: prod.splits)

lemma push_writes_status:
  "decodeNotification js (Body r) = Inr notif \<Longrightarrow>
   snd (PushNotificationToSubscribers js eaaCtx r w)
     = WriteHeader (fst (sendNotificationToAllSubscribers (CommonName r) notif eaaCtx))
         (contentTypeJSON w)"
  by (simp add: PushNotificationToSubscribers_def Let_def split: prod.splits)

text \<open>
  C3. With no matched consumer the delivery status is the 205-equivalent one, with one or
  more it is 200, whatever the channels of the matched consumers do, and the two differ;
  the handler writes exactly this status to the caller.
\<close>

theorem push_status_no_subscribers:
  assumes dec: "decodeNotification js (Body r) = Inr notif"
    and urn: "CommonNameStringToURN (CommonName r) = Inr producerURN"
  shows "clientStatus (snd (PushNotificationToSubscribers js eaaCtx r newResponseWriter))
           = Some (fst (sendNotificationToAllSubscribers (CommonName r) notif eaaCtx))
       \<and> fst (sendNotificationToAllSubscribers (CommonName r) notif eaaCtx)
           = (if MatchSubscribers (subscriptionInfo eaaCtx) producerURN (Descriptor notif) = []
              then StatusResetContent else StatusOK)
       \<and> StatusResetContent \<noteq> StatusOK
       \<and> clientStatus (snd (PushNotificationToSubscribers js
            (eaaCtx\<lparr>consumerConnections := chans\<rparr>) r newResponseWriter))
           = clientStatus (snd (PushNotificationToSubscribers js eaaCtx r newResponseWriter))"
  by (simp add: push_writes_status [OF dec] send_status [OF urn] handler_simps)

theorem push_status_no_subscribers_witness:
  "decodeNotification sampleJson (Body (sampleRequest ''shop.catalog'' ''price-update''))
     = Inr \<lparr>Descriptor = priceUpdate, NotifPayload = ''9.99''\<rparr>
   \<and> CommonNameStringToURN (CommonName (sampleRequest ''shop.catalog'' ''price-update''))
     = Inr shopCatalog
   \<and> MatchSubscribers (subscriptionInfo sampleContext) shopCatalog priceUpdate = [shopCart]
   \<and> pushToAll [shopCart] ''9.99'' (consumerConnections sampleContext) []
     = (consumerConnections sampleContext, [shopCart])
   \<and> clientStatus (snd (PushNotificationToSubscribers sampleJson sampleContext
        (sampleRequest ''shop.catalog'' ''price-update'') newResponseWriter)) = Some StatusOK
   \<and> MatchSubscribers (subscriptionInfo sampleContext) shopCatalog
        \<lparr>Name = ''stock-out'', Version = ''1'', CustomFields = []\<rparr> = []
   \<and> clientStatus (snd (PushNotificationToSubscribers sampleJson sampleContext
        (sampleRequest ''shop.catalog'' ''stock-out'') newResponseWriter))
     = Some StatusResetContent"
proof -
  have d1: "decodeNotification sampleJson (Body (sampleRequest ''shop.catalog'' ''price-update''))
     = Inr \<lparr>Descriptor = priceUpdate, NotifPayload = ''9.99''\<rparr>"
    by (simp add: sampleJson_def sampleRequest_def priceUpdate_def)
  have d2: "decodeNotification sampleJson (Body (sampleRequest ''shop.catalog'' ''stock-out''))
     = Inr \<lparr>Descriptor = \<lparr>Name = ''stock-out'', Version = ''1'', CustomFields = []\<rparr>,
            NotifPayload = ''9.99''\<rparr>"
    by (simp add: sampleJson_def sampleRequest_def)
  have u1: "CommonNameStringToURN (CommonName (sampleRequest ''shop.catalog'' ''price-update''))
     = Inr shopCatalog"
    by (simp add: sampleRequest_def parse_shop_catalog)
  have u2: "CommonNameStringToURN (CommonName (sampleRequest ''shop.catalog'' ''stock-out''))
     = Inr shopCatalog"
    by (simp add: sampleRequest_def parse_shop_catalog)
  have m1: "MatchSubscribers (subscriptionInfo sampleContext) shopCatalog priceUpdate
              = [shopCart]"
    by (simp add: MatchSubscribers_def subscribedTo_def sameSubscription_def sample_defs)
  have m2: "MatchSubscribers (subscriptionInfo sampleContext) shopCatalog
        \<lparr>Name = ''stock-out'', Version = ''1'', CustomFields = []\<rparr> = []"
    by (simp add: MatchSubscribers_def subscribedTo_def sameSubscription_def sample_defs)
  have p: "pushToAll [shopCart] ''9.99'' (consumerConnections sampleContext) []
     = (consumerConnections sampleContext, [shopCart])"
    by (simp add: Send_def sampleContext_def)
  show ?thesis
    using d1 u1 m1 m2 p
      push_status_no_subscribers [OF d1 u1, of sampleContext]
      push_status_no_subscribers [OF d2 u2, of sampleContext]
    by simp
qed

subsection \<open>The subscription index\<close>

lemma consumerEntry_update_same [simp]:
  "consumerEntry (AList.update c e idx) c = e"
  by (simp add: consumerEntry_def update_conv')

lemma addSubscription_present:
  "list_ex (sameSubscription s) subs \<Longrightarrow> addSubscription s subs = subs"
  by (simp add: addSubscription_def)

lemma list_ex_addSubscription_self:
  "list_ex (sameSubscription s) (addSubscription s subs)"
  by (simp add: addSubscription_def sameSubscription_def list_ex_iff)

lemma list_ex_addSubscription_mono:
  "list_ex P subs \<Longrightarrow> list_ex P (addSubscription s subs)"
  by (auto simp: addSubscription_def list_ex_iff)

lemma list_ex_addSubscriptions_mono:
  "list_ex P subs \<Longrightarrow> list_ex P (addSubscriptions sc ds subs)"
  by (induction ds arbitrary: subs) (simp_all add: list_ex_addSubscription_mono)

lemma addSubscriptions_covers:
  "d \<in> set ds \<Longrightarrow> list_ex (sameSubscription (sc, d)) (addSubscriptions sc ds subs)"
proof (induction ds arbitrary: subs)
  case Nil
  then show ?case by simp
next
  case (Cons a ds)
  show ?case
  proof (cases "d = a")
    case True
    then show ?thesis
      by (simp add: list_ex_addSubscriptions_mono list_ex_addSubscription_self)
  next
    case False
    with Cons.prems have "d \<in> set ds" by simp
    then show ?thesis by (simp add: Cons.IH)
  qed
qed

lemma addSubscriptions_present:
  "(\<And>d. d \<in> set ds \<Longrightarrow> list_ex (sameSubscription (sc, d)) subs) \<Longrightarrow>
   addSubscriptions sc ds subs = subs"
  by (induction ds) (simp_all add: addSubscription_present)

lemma addSubscriptions_twice:
  "addSubscriptions sc ds (addSubscriptions sc ds subs) = addSubscriptions sc ds subs"
  by (rule addSubscriptions_present) (rule addSubscriptions_covers)

lemma AddNamespaceSubscription_twice:
  "AddNamespaceSubscription (AddNamespaceSubscription idx c ns ds) c ns ds
     = AddNamespaceSubscription idx c ns ds"
  by (simp add: AddNamespaceSubscription_def Let_def addSubscriptions_twice)

lemma AddServiceSubscription_twice:
  "AddServiceSubscription (AddServiceSubscription idx c ns ident ds) c ns ident ds
     = AddServiceSubscription idx c ns ident ds"
  by (simp add: AddServiceSubscription_def Let_def addSubscriptions_twice)

lemma SubscribeNamespace_twice:
  "SubscribeNamespaceNotifications js
       (fst (SubscribeNamespaceNotifications js eaaCtx r w)) r w
     = SubscribeNamespaceNotifications js eaaCtx r w"
proof (cases "decodeDescriptors js (Body r)")
  case (Inl e)
  then show ?thesis by (simp add: SubscribeNamespaceNotifications_def Let_def)
next
  case (Inr ds)
  then show ?thesis
    by (cases "CommonNameStringToURN (CommonName r)")
       (simp_all add: SubscribeNamespaceNotifications_def addSubscriptionToNamespace_def
          AddNamespaceSubscription_twice Let_def)
qed

lemma SubscribeService_twice:
  "SubscribeServiceNotifications js
       (fst (SubscribeServiceNotifications js eaaCtx r w)) r w
     = SubscribeServiceNotifications js eaaCtx r w"
proof (cases "decodeDescriptors js (Body r)")
  case (Inl e)
  then show ?thesis by (simp add: SubscribeServiceNotifications_def Let_def)
next
  case (Inr ds)
  then show ?thesis
    by (cases "CommonNameStringToURN (CommonName r)")
       (simp_all add: SubscribeServiceNotifications_def addSubscriptionToService_def
          AddServiceSubscription_twice Let_def)
qed

lemma Subscribe_success:
  "decodeDescriptors js (Body r) = Inr ds \<Longrightarrow> CommonNameStringToURN (CommonName r) = Inr c \<Longrightarrow>
   SubscribeNamespaceNotifications js eaaCtx r newResponseWriter
     = (eaaCtx\<lparr>subscriptionInfo :=
          AddNamespaceSubscription (subscriptionInfo eaaCtx) c (muxVar r ''urn.namespace'') ds\<rparr>,
        WriteHeader StatusCreated (contentTypeJSON newResponseWriter))
   \<and> SubscribeServiceNotifications js eaaCtx r newResponseWriter
     = (eaaCtx\<lparr>subscriptionInfo :=
          AddServiceSubscription (subscriptionInfo eaaCtx) c (muxVar r ''urn.namespace'')
            (muxVar r ''urn.id'') ds\<rparr>,
        WriteHeader StatusCreated (contentTypeJSON newResponseWriter))"
  by (simp add: SubscribeNamespaceNotifications_def SubscribeServiceNotifications_def
        addSubscriptionToNamespace_def addSubscriptionToService_def Let_def)

text \<open>
  C6. Subscribing twice with the same request leaves the context, and so the consumer's
  subscription sets, as subscribing once does, for the namespace scope and for the service
  scope; a subscribe request that decodes and whose common name parses answers the
  success status 201, also when every descriptor was already there.
\<close>

theorem subscribe_twice_is_subscribe_once:
  "SubscribeNamespaceNotifications js
       (fst (SubscribeNamespaceNotifications js eaaCtx r w)) r w
     = SubscribeNamespaceNotifications js eaaCtx r w
   \<and> SubscribeServiceNotifications js
       (fst (SubscribeServiceNotifications js eaaCtx r w)) r w
     = SubscribeServiceNotifications js eaaCtx r w
   \<and> AddNamespaceSubscription (AddNamespaceSubscription idx c ns ds) c ns ds
     = AddNamespaceSubscription idx c ns ds
   \<and> AddServiceSubscription (AddServiceSubscription idx c ns ident ds) c ns ident ds
     = AddServiceSubscription idx c ns ident ds
   \<and> (decodeDescriptors js (Body r) = Inr ds \<and> CommonNameStringToURN (CommonName r) = Inr c
        \<longrightarrow>
      subscriptionInfo (fst (SubscribeNamespaceNotifications js eaaCtx r newResponseWriter))
        = AddNamespaceSubscription (subscriptionInfo eaaCtx) c (muxVar r ''urn.namespace'') ds
      \<and> clientStatus (snd (SubscribeNamespaceNotifications js eaaCtx r newResponseWriter))
        = Some StatusCreated
      \<and> subscriptionInfo (fst (SubscribeServiceNotifications js eaaCtx r newResponseWriter))
        = AddServiceSubscription (subscriptionInfo eaaCtx) c (muxVar r ''urn.namespace'')
            (muxVar r ''urn.id'') ds
      \<and> clientStatus (snd (SubscribeServiceNotifications js eaaCtx r newResponseWriter))
        = Some StatusCreated)"
proof -
  have st: "clientStatus (WriteHeader StatusCreated (contentTypeJSON newResponseWriter))
          = Some StatusCreated"
    by (simp add: handler_simps)
  have ok: "decodeDescriptors js (Body r) = Inr ds \<and> CommonNameStringToURN (CommonName r) = Inr c
        \<longrightarrow>
      subscriptionInfo (fst (SubscribeNamespaceNotifications js eaaCtx r newResponseWriter))
        = AddNamespaceSubscription (subscriptionInfo eaaCtx) c (muxVar r ''urn.namespace'') ds
      \<and> clientStatus (snd (SubscribeNamespaceNotifications js eaaCtx r newResponseWriter))
        = Some StatusCreated
      \<and> subscriptionInfo (fst (SubscribeServiceNotifications js eaaCtx r newResponseWriter))
        = AddServiceSubscription (subscriptionInfo eaaCtx) c (muxVar r ''urn.namespace'')
            (muxVar r ''urn.id'') ds
      \<and> clientStatus (snd (SubscribeServiceNotifications js eaaCtx r newResponseWriter))
        = Some StatusCreated"
  proof
    assume h: "decodeDescriptors js (Body r) = Inr ds
               \<and> CommonNameStringToURN (CommonName r) = Inr c"
    show "subscriptionInfo (fst (SubscribeNamespaceNotifications js eaaCtx r newResponseWriter))
        = AddNamespaceSubscription (subscriptionInfo eaaCtx) c (muxVar r ''urn.namespace'') ds
      \<and> clientStatus (snd (SubscribeNamespaceNotifications js eaaCtx r newResponseWriter))
        = Some StatusCreated
      \<and> subscriptionInfo (fst (SubscribeServiceNotifications js eaaCtx r newResponseWriter))
        = AddServiceSubscription (subscriptionInfo eaaCtx) c (muxVar r ''urn.namespace'')
            (muxVar r ''urn.id'') ds
      \<and> clientStatus (snd (SubscribeServiceNotifications js eaaCtx r newResponseWriter))
        = Some StatusCreated"
      using h Subscribe_success [of js r ds c eaaCtx] st by simp
  qed
  show ?thesis
    by (intro conjI SubscribeNamespace_twice SubscribeService_twice
          AddNamespaceSubscription_twice AddServiceSubscription_twice ok)
qed

theorem subscribe_twice_is_subscribe_once_witness:
  "decodeDescriptors sampleJson (Body (sampleRequest ''shop.cart'' ''[price-update]''))
     = Inr [priceUpdate]
   \<and> CommonNameStringToURN (CommonName (sampleRequest ''shop.cart'' ''[price-update]''))
     = Inr shopCart
   \<and> clientStatus (snd (SubscribeNamespaceNotifications sampleJson sampleContext
        (sampleRequest ''shop.cart'' ''[price-update]'') newResponseWriter))
     = Some StatusCreated
   \<and> clientStatus (snd (SubscribeServiceNotifications sampleJson sampleContext
        (sampleRequest ''shop.cart'' ''[price-update]'') newResponseWriter))
     = Some StatusCreated
   \<and> subscriptionInfo (fst (SubscribeServiceNotifications sampleJson sampleContext
        (sampleRequest ''shop.cart'' ''[price-update]'') newResponseWriter))
     = subscriptionInfo sampleContext
   \<and> subscriptionInfo (fst (SubscribeNamespaceNotifications sampleJson sampleContext
        (sampleRequest ''shop.cart'' ''[price-update]'') newResponseWriter))
     = [(shopCart,
         \<lparr>namespaceSubscriptions = [(NamespaceScope ''shop'', priceUpdate)],
          serviceSubscriptions = [(ServiceScope ''shop'' ''catalog'', priceUpdate)]\<rparr>)]
   \<and> AddNamespaceSubscription
        (AddNamespaceSubscription (subscriptionInfo sampleContext) shopCart ''shop''
           [priceUpdate]) shopCart ''shop'' [priceUpdate]
     = [(shopCart,
         \<lparr>namespaceSubscriptions = [(NamespaceScope ''shop'', priceUpdate)],
          serviceSubscriptions = [(ServiceScope ''shop'' ''catalog'', priceUpdate)]\<rparr>)]"
proof -
  have d: "decodeDescriptors sampleJson (Body (sampleRequest ''shop.cart'' ''[price-update]''))
     = Inr [priceUpdate]"
    by (simp add: sampleJson_def sampleRequest_def)
  have u: "CommonNameStringToURN (CommonName (sampleRequest ''shop.cart'' ''[price-update]''))
     = Inr shopCart"
    by (simp add: sampleRequest_def parse_shop_cart)
  have v: "muxVar (sampleRequest ''shop.cart'' ''[price-update]'') ''urn.namespace'' = ''shop''"
    "muxVar (sampleRequest ''shop.cart'' ''[price-update]'') ''urn.id'' = ''catalog''"
    by (simp_all add: muxVar_def sampleRequest_def)
  have a1: "AddNamespaceSubscription (subscriptionInfo sampleContext) shopCart ''shop''
              [priceUpdate]
     = [(shopCart,
         \<lparr>namespaceSubscriptions = [(NamespaceScope ''shop'', priceUpdate)],
          serviceSubscriptions = [(ServiceScope ''shop'' ''catalog'', priceUpdate)]\<rparr>)]"
    by (simp add: AddNamespaceSubscription_def consumerEntry_def addSubscription_def
          sampleContext_def)
  have a2: "AddServiceSubscription (subscriptionInfo sampleContext) shopCart ''shop''
              ''catalog'' [priceUpdate]
     = subscriptionInfo sampleContext"
    by (simp add: AddServiceSubscription_def consumerEntry_def addSubscription_def
          sameSubscription_def sampleContext_def)
  show ?thesis
    using d u v a1 a2
      subscribe_twice_is_subscribe_once
        [of sampleJson sampleContext "sampleRequest ''shop.cart'' ''[price-update]''"
            newResponseWriter "subscriptionInfo sampleContext" shopCart "''shop''"
            "[priceUpdate]" "''catalog''"]
    by simp
qed

lemma getConsumerSubscriptions_parsed:
  "CommonNameStringToURN cn = Inr consumer \<Longrightarrow>
   getConsumerSubscriptions cn eaaCtx
     = Inr (GetSubscriptionsOf (subscriptionInfo eaaCtx) consumer)"
  by (simp add: getConsumerSubscriptions_def)

lemma GetSubscriptionsOf_cong:
  "map_of idx' c = map_of idx c \<Longrightarrow> GetSubscriptionsOf idx' c = GetSubscriptionsOf idx c"
  by (simp add: GetSubscriptionsOf_def consumerEntry_def)

text \<open>
  C5. For a consumer whose common name parses, the subscription list that is read back is
  exactly the union of the consumer's own namespace-level and service-level sets, it is
  what the handler encodes into the response, and it depends on no other consumer's entry
  of the index.
\<close>

theorem GetSubscriptions_own_union:
  assumes urn: "CommonNameStringToURN (CommonName r) = Inr consumer"
  shows "getConsumerSubscriptions (CommonName r) eaaCtx
           = Inr (GetSubscriptionsOf (subscriptionInfo eaaCtx) consumer)
       \<and> set (GetSubscriptionsOf (subscriptionInfo eaaCtx) consumer)
           = set (namespaceSubscriptions (consumerEntry (subscriptionInfo eaaCtx) consumer))
             \<union> set (serviceSubscriptions (consumerEntry (subscriptionInfo eaaCtx) consumer))
       \<and> (marshalSubscriptionList js (GetSubscriptionsOf (subscriptionInfo eaaCtx) consumer)
            = Inr out \<longrightarrow>
          body (snd (GetSubscriptions js eaaCtx r newResponseWriter)) = [out])
       \<and> (map_of (subscriptionInfo eaaCtx') consumer = map_of (subscriptionInfo eaaCtx) consumer
            \<longrightarrow> getConsumerSubscriptions (CommonName r) eaaCtx'
                  = getConsumerSubscriptions (CommonName r) eaaCtx)
       \<and> (other \<noteq> consumer \<longrightarrow>
            getConsumerSubscriptions (CommonName r)
                (eaaCtx\<lparr>subscriptionInfo := AList.update other e (subscriptionInfo eaaCtx)\<rparr>)
              = getConsumerSubscriptions (CommonName r) eaaCtx)"
proof -
  have un: "set (GetSubscriptionsOf (subscriptionInfo eaaCtx) consumer)
           = set (namespaceSubscriptions (consumerEntry (subscriptionInfo eaaCtx) consumer))
             \<union> set (serviceSubscriptions (consumerEntry (subscriptionInfo eaaCtx) consumer))"
    by (simp add: GetSubscriptionsOf_def Let_def)
  have body: "marshalSubscriptionList js (GetSubscriptionsOf (subscriptionInfo eaaCtx) consumer)
              = Inr out \<longrightarrow>
              body (snd (GetSubscriptions js eaaCtx r newResponseWriter)) = [out]"
    by (simp add: GetSubscriptions_def getConsumerSubscriptions_parsed [OF urn] handler_simps)
  have entry: "map_of (subscriptionInfo eaaCtx') consumer
                 = map_of (subscriptionInfo eaaCtx) consumer \<longrightarrow>
     getConsumerSubscriptions (CommonName r) eaaCtx'
       = getConsumerSubscriptions (CommonName r) eaaCtx"
    using GetSubscriptionsOf_cong [of "subscriptionInfo eaaCtx'" consumer "subscriptionInfo eaaCtx"]
    by (simp add: getConsumerSubscriptions_parsed [OF urn])
  have upd: "other \<noteq> consumer \<longrightarrow>
     getConsumerSubscriptions (CommonName r)
         (eaaCtx\<lparr>subscriptionInfo := AList.update other e (subscriptionInfo eaaCtx)\<rparr>)
       = getConsumerSubscriptions (CommonName r) eaaCtx"
    by (simp add: getConsumerSubscriptions_parsed [OF urn] GetSubscriptionsOf_def
          consumerEntry_def update_conv')
  show ?thesis
    by (intro conjI getConsumerSubscriptions_parsed [OF urn] un body entry upd)
qed

theorem GetSubscriptions_own_union_witness:
  "CommonNameStringToURN (CommonName (sampleRequest ''shop.cart'' [])) = Inr shopCart
   \<and> getConsumerSubscriptions ''shop.cart'' sampleContext
       = Inr [(ServiceScope ''shop'' ''catalog'', priceUpdate)]
   \<and> body (snd (GetSubscriptions sampleJson sampleContext (sampleRequest ''shop.cart'' [])
        newResponseWriter)) = [''subscriptions'']
   \<and> shopCatalog \<noteq> shopCart
   \<and> getConsumerSubscriptions ''shop.cart''
        (sampleContext\<lparr>subscriptionInfo :=
           AList.update shopCatalog
             \<lparr>namespaceSubscriptions = [(NamespaceScope ''shop'', priceUpdate)],
              serviceSubscriptions = []\<rparr> (subscriptionInfo sampleContext)\<rparr>)
       = Inr [(ServiceScope ''shop'' ''catalog'', priceUpdate)]"
proof -
  have u: "CommonNameStringToURN (CommonName (sampleRequest ''shop.cart'' [])) = Inr shopCart"
    by (simp add: sampleRequest_def parse_shop_cart)
  have cn: "CommonName (sampleRequest ''shop.cart'' []) = ''shop.cart''"
    by (simp add: sampleRequest_def)
  have g: "GetSubscriptionsOf (subscriptionInfo sampleContext) shopCart
             = [(ServiceScope ''shop'' ''catalog'', priceUpdate)]"
    by (simp add: GetSubscriptionsOf_def consumerEntry_def sampleContext_def)
  have m: "marshalSubscriptionList sampleJson [(ServiceScope ''shop'' ''catalog'', priceUpdate)]
             = Inr ''subscriptions''"
    by (simp add: sampleJson_def)
  have ne: "shopCatalog \<noteq> shopCart"
    by (simp add: shopCatalog_def shopCart_def)
  show ?thesis
    using u cn g m ne
      GetSubscriptions_own_union [OF u, of sampleContext sampleJson "''subscriptions''"
        sampleContext shopCatalog
        "\<lparr>namespaceSubscriptions = [(NamespaceScope ''shop'', priceUpdate)],
          serviceSubscriptions = []\<rparr>"]
    by simp
qed

end
